theory Spec2Isabelle
  imports Complex_Main "HOL-Library.Multiset"
begin

section \<open>JavaScript values\<close>

text \<open>
  The dashboard (\<^verbatim>\<open>src/App.jsx\<close>) and its relay (\<^verbatim>\<open>src/proxy.js\<close>) work on values
  that come out of \<^verbatim>\<open>JSON.parse\<close>. A JavaScript number is a rational, a NaN or an
  infinity; the two zeros are identified, which no operation used by the program tells apart.
  A JavaScript string is a list of code units; a \<^typ>\<open>char\<close> stands for one code unit
  below 256. An object is the list of its own properties, each key once, in insertion order.
  \<^verbatim>\<open>undefined\<close> is \<^term>\<open>None\<close> of \<open>json option\<close>.
\<close>

datatype jsnum = Num rat | NaN | PosInf | NegInf

datatype json =
    JNull
  | JBool bool
  | JNum jsnum
  | JStr string
  | JArr "json list"
  | JObj "(string \<times> json) list"

type_synonym jsval = "json option"

text \<open>
  Every \<^verbatim>\<open>throw\<close> of the program, by kind. The message text is not modelled.
  \<open>HttpFailure\<close> is the \<^verbatim>\<open>Error\<close> that \<^verbatim>\<open>proxyFetch\<close> throws on a non-ok response,
  \<open>FetchFailed\<close> a rejected \<^verbatim>\<open>fetch\<close>, \<open>AllEndpointsEmpty\<close> the \<^verbatim>\<open>Error\<close> thrown when every
  endpoint came back empty.
\<close>

datatype js_error = TypeError | SyntaxError | FetchFailed | HttpFailure nat | AllEndpointsEmpty

text \<open>
  What the language leaves to the engine, or what is too large to transcribe, is a parameter:
  \<^verbatim>\<open>Number::toString\<close>, \<^verbatim>\<open>StringToNumber\<close>, the time value that \<^verbatim>\<open>new Date(s)\<close> gives to
  a string that is not a plain ISO calendar date, and \<^verbatim>\<open>String.prototype.toUpperCase\<close>.
\<close>

record engine =
  numberToString :: "jsnum \<Rightarrow> string"
  stringToNumber :: "string \<Rightarrow> jsnum"
  dateFallback :: "string \<Rightarrow> jsnum"
  toUpperCase :: "string \<Rightarrow> string"

definition andThen :: "'e + 'a \<Rightarrow> ('a \<Rightarrow> 'e + 'b) \<Rightarrow> 'e + 'b" where
  "andThen m f = (case m of Inl e \<Rightarrow> Inl e | Inr x \<Rightarrow> f x)"

text \<open>\<^verbatim>\<open>xs.map(f)\<close> where \<open>f\<close> may throw: the first throw ends the map.\<close>

fun traverse :: "('a \<Rightarrow> 'e + 'b) \<Rightarrow> 'a list \<Rightarrow> 'e + 'b list" where
  "traverse f [] = Inr []"
| "traverse f (x # xs) = andThen (f x) (\<lambda>y. andThen (traverse f xs) (\<lambda>ys. Inr (y # ys)))"

text \<open>ToBoolean: what \<^verbatim>\<open>!x\<close>, \<^verbatim>\<open>x || y\<close> and \<^verbatim>\<open>x && y\<close> test.\<close>

fun truthy :: "jsval \<Rightarrow> bool" where
  "truthy None = False"
| "truthy (Some JNull) = False"
| "truthy (Some (JBool b)) = b"
| "truthy (Some (JNum n)) = (n \<noteq> Num 0 \<and> n \<noteq> NaN)"
| "truthy (Some (JStr s)) = (s \<noteq> [])"
| "truthy (Some (JArr xs)) = True"
| "truthy (Some (JObj kvs)) = True"

text \<open>What \<^verbatim>\<open>x ?? y\<close> tests: \<^verbatim>\<open>undefined\<close> or \<^verbatim>\<open>null\<close>.\<close>

definition nullish :: "jsval \<Rightarrow> bool" where
  "nullish v = (v = None \<or> v = Some JNull)"

fun decimal :: "nat \<Rightarrow> string" where
  "decimal n =
     (if n < 10 then [char_of (48 + n)] else decimal (n div 10) @ [char_of (48 + n mod 10)])"

text \<open>
  A property read \<^verbatim>\<open>x.p\<close>, for the data properties the program reads (\<^verbatim>\<open>date\<close>, \<^verbatim>\<open>d\<close>,
  \<^verbatim>\<open>year\<close>, \<^verbatim>\<open>value\<close>, \<^verbatim>\<open>v\<close>, \<^verbatim>\<open>categories\<close>, \<^verbatim>\<open>series\<close>, \<^verbatim>\<open>data\<close>, \<^verbatim>\<open>length\<close>,
  \<^verbatim>\<open>assetEarningsModels\<close>, \<^verbatim>\<open>ed\<close>, \<^verbatim>\<open>pd\<close>, \<^verbatim>\<open>et\<close>, \<^verbatim>\<open>url\<close>): none of them is inherited
  from a prototype except \<^verbatim>\<open>length\<close> of arrays and strings. Reading a property of
  \<^verbatim>\<open>undefined\<close> or \<^verbatim>\<open>null\<close> throws.
\<close>

fun field :: "jsval \<Rightarrow> string \<Rightarrow> js_error + jsval" where
  "field None p = Inl TypeError"
| "field (Some JNull) p = Inl TypeError"
| "field (Some (JObj kvs)) p = Inr (map_of kvs p)"
| "field (Some (JArr xs)) p =
     Inr (if p = ''length'' then Some (JNum (Num (of_nat (length xs)))) else None)"
| "field (Some (JStr s)) p =
     Inr (if p = ''length'' then Some (JNum (Num (of_nat (length s)))) else None)"
| "field (Some (JBool b)) p = Inr None"
| "field (Some (JNum n)) p = Inr None"

text \<open>An indexed read \<^verbatim>\<open>x[i]\<close> with a non-negative integer \<open>i\<close>.\<close>

fun index_at :: "jsval \<Rightarrow> nat \<Rightarrow> js_error + jsval" where
  "index_at None i = Inl TypeError"
| "index_at (Some JNull) i = Inl TypeError"
| "index_at (Some (JArr xs)) i = Inr (if i < length xs then Some (xs ! i) else None)"
| "index_at (Some (JStr s)) i = Inr (if i < length s then Some (JStr [s ! i]) else None)"
| "index_at (Some (JObj kvs)) i = Inr (map_of kvs (decimal i))"
| "index_at (Some (JBool b)) i = Inr None"
| "index_at (Some (JNum n)) i = Inr None"

fun join_comma :: "string list \<Rightarrow> string" where
  "join_comma [] = []"
| "join_comma [s] = s"
| "join_comma (s # t # ts) = s @ '','' @ join_comma (t # ts)"

text \<open>
  \<^verbatim>\<open>String(x)\<close>. An object is converted by its \<^verbatim>\<open>toString\<close> method and, failing that, by
  its \<^verbatim>\<open>valueOf\<close>. An object from JSON inherits both: the inherited \<^verbatim>\<open>toString\<close> gives
  \<^verbatim>\<open>[object Object]\<close>, and the inherited \<^verbatim>\<open>valueOf\<close> gives the object itself, which is
  no primitive. An own property \<^verbatim>\<open>toString\<close> holds JSON, which is no function, and hides
  the inherited method: the conversion of such an object throws. An array is its elements
  joined by commas in order, \<^verbatim>\<open>null\<close> elements as the empty string; the conversion of an
  element may throw.
\<close>

fun to_string :: "engine \<Rightarrow> json \<Rightarrow> js_error + string"
  and join_elements :: "engine \<Rightarrow> json list \<Rightarrow> js_error + string list" where
  "to_string E JNull = Inr ''null''"
| "to_string E (JBool b) = Inr (if b then ''true'' else ''false'')"
| "to_string E (JNum n) = Inr (numberToString E n)"
| "to_string E (JStr s) = Inr s"
| "to_string E (JArr xs) = andThen (join_elements E xs) (\<lambda>parts. Inr (join_comma parts))"
| "to_string E (JObj kvs) =
     (if map_of kvs ''toString'' = None then Inr ''[object Object]'' else Inl TypeError)"
| "join_elements E [] = Inr []"
| "join_elements E (x # xs) =
     andThen (case x of JNull \<Rightarrow> Inr [] | _ \<Rightarrow> to_string E x) (\<lambda>part.
     andThen (join_elements E xs) (\<lambda>parts. Inr (part # parts)))"

text \<open>
  \<^verbatim>\<open>Number(x)\<close>. An array or object is converted by \<^verbatim>\<open>valueOf\<close>, which gives the value
  itself, and then by \<^verbatim>\<open>toString\<close>: it goes through its string, and throws where that
  throws.
\<close>

fun to_number :: "engine \<Rightarrow> jsval \<Rightarrow> js_error + jsnum" where
  "to_number E None = Inr NaN"
| "to_number E (Some JNull) = Inr (Num 0)"
| "to_number E (Some (JBool b)) = Inr (if b then Num 1 else Num 0)"
| "to_number E (Some (JNum n)) = Inr n"
| "to_number E (Some (JStr s)) = Inr (stringToNumber E s)"
| "to_number E (Some (JArr xs)) =
     andThen (to_string E (JArr xs)) (\<lambda>s. Inr (stringToNumber E s))"
| "to_number E (Some (JObj kvs)) =
     andThen (to_string E (JObj kvs)) (\<lambda>s. Inr (stringToNumber E s))"

text \<open>\<^verbatim>\<open>x > 0\<close>: the left side is converted to a number first.\<close>

definition positive :: "jsnum \<Rightarrow> bool" where
  "positive v = (case v of Num r \<Rightarrow> 0 < r | PosInf \<Rightarrow> True | _ \<Rightarrow> False)"

definition gt_zero :: "engine \<Rightarrow> jsval \<Rightarrow> js_error + bool" where
  "gt_zero E v = andThen (to_number E v) (\<lambda>n. Inr (positive n))"

section \<open>The normalizers of \<^verbatim>\<open>src/App.jsx\<close>\<close>

text \<open>
  \<^verbatim>\<open>src/App.jsx\<close> holds two copies of the application; the first one (lines 1 to 400) is
  the current one and the one modelled here.
\<close>

record point =
  name :: jsval
  "value" :: jsnum

text \<open>
  The callback of the first branch of \<^verbatim>\<open>normalizeGenericChartData\<close>:
  \<^verbatim>\<open>item => ({ name: item.date || item.d || item.year,
              value: Number(item.value ?? item.v ?? 0) })\<close>
\<close>

definition chartItem :: "engine \<Rightarrow> json \<Rightarrow> js_error + point" where
  "chartItem E item =
     andThen (field (Some item) ''date'') (\<lambda>dt.
     andThen (if truthy dt then Inr dt
              else andThen (field (Some item) ''d'') (\<lambda>d.
                   if truthy d then Inr d else field (Some item) ''year'')) (\<lambda>nm.
     andThen (field (Some item) ''value'') (\<lambda>vl.
     andThen (if nullish vl
              then andThen (field (Some item) ''v'') (\<lambda>v.
                   Inr (if nullish v then Some (JNum (Num 0)) else v))
              else Inr vl) (\<lambda>x.
     andThen (to_number E x) (\<lambda>n.
     Inr \<lparr>name = nm, value = n\<rparr>)))))"

text \<open>
  The guard of the first branch:
  \<^verbatim>\<open>Array.isArray(data) && data.length > 0 && (data[0].date || data[0].d)\<close>
\<close>

fun dateKeyed :: "json \<Rightarrow> js_error + bool" where
  "dateKeyed (JArr (x # xs)) =
     andThen (field (Some x) ''date'') (\<lambda>dt.
     if truthy dt then Inr True
     else andThen (field (Some x) ''d'') (\<lambda>d. Inr (truthy d)))"
| "dateKeyed _ = Inr False"

text \<open>
  The callback of the second branch:
  \<^verbatim>\<open>(cat, index) => ({ name: String(cat), value: Number(seriesData[index] ?? 0) })\<close>
\<close>

definition seriesItem :: "engine \<Rightarrow> jsval \<Rightarrow> json \<times> nat \<Rightarrow> js_error + point" where
  "seriesItem E seriesData ci =
     andThen (to_string E (fst ci)) (\<lambda>label.
     andThen (index_at seriesData (snd ci)) (\<lambda>v.
     andThen (to_number E (if nullish v then Some (JNum (Num 0)) else v)) (\<lambda>n.
     Inr \<lparr>name = Some (JStr label), value = n\<rparr>)))"

text \<open>
  The second branch, from its guard
  \<^verbatim>\<open>data.categories && data.series && data.series.length > 0\<close> on.
  \<^verbatim>\<open>categories.map\<close> is a function only when \<^verbatim>\<open>categories\<close> is an array.
\<close>

definition categoriesSeries :: "engine \<Rightarrow> json \<Rightarrow> js_error + point list" where
  "categoriesSeries E data =
     andThen (field (Some data) ''categories'') (\<lambda>categories.
     if \<not> truthy categories then Inr []
     else andThen (field (Some data) ''series'') (\<lambda>series.
     if \<not> truthy series then Inr []
     else andThen (field series ''length'') (\<lambda>len.
          andThen (gt_zero E len) (\<lambda>some.
     if \<not> some then Inr []
     else andThen (index_at series 0) (\<lambda>s0.
          andThen (field s0 ''data'') (\<lambda>seriesData.
          case categories of
            Some (JArr cs) \<Rightarrow> traverse (seriesItem E seriesData) (zip cs [0..<length cs])
          | _ \<Rightarrow> Inl TypeError))))))"

definition normalizeGenericChartData :: "engine \<Rightarrow> json \<Rightarrow> js_error + point list" where
  "normalizeGenericChartData E data =
     (if \<not> truthy (Some data) then Inr []
      else andThen (dateKeyed data) (\<lambda>first.
           if first then (case data of JArr xs \<Rightarrow> traverse (chartItem E) xs | _ \<Rightarrow> Inr [])
           else categoriesSeries E data))"


subsection \<open>Dates\<close>

text \<open>\<^verbatim>\<open>s.split(sep)\<close> with a one-character separator.\<close>

fun split_on :: "char \<Rightarrow> string \<Rightarrow> string list" where
  "split_on sep [] = [[]]"
| "split_on sep (c # cs) =
     (if c = sep then [] # split_on sep cs
      else (case split_on sep cs of [] \<Rightarrow> [[c]] | p # ps \<Rightarrow> (c # p) # ps))"

definition is_digit :: "char \<Rightarrow> bool" where
  "is_digit c = (48 \<le> (of_char c :: nat) \<and> (of_char c :: nat) \<le> 57)"

definition number_of :: "string \<Rightarrow> int" where
  "number_of s = foldl (\<lambda>a c. 10 * a + (int (of_char c) - 48)) 0 s"

text \<open>The calendar of ECMAScript (Day Number and Time within Day, Year Number).\<close>

definition dayFromYear :: "int \<Rightarrow> int" where
  "dayFromYear y =
     365 * (y - 1970) + (y - 1969) div 4 - (y - 1901) div 100 + (y - 1601) div 400"

definition leapYear :: "int \<Rightarrow> bool" where
  "leapYear y = (y mod 4 = 0 \<and> (y mod 100 \<noteq> 0 \<or> y mod 400 = 0))"

definition monthLengths :: "int \<Rightarrow> int list" where
  "monthLengths y = [31, if leapYear y then 29 else 28, 31, 30, 31, 30, 31, 31, 30, 31, 30, 31]"

text \<open>
  The time value of a date-only ISO string \<^verbatim>\<open>YYYY-MM-DD\<close> that names a day of the
  calendar: midnight UTC of that day, in milliseconds since the epoch. Every other string is
  left to the engine.
\<close>

definition isoDate :: "string \<Rightarrow> int option" where
  "isoDate s =
     (if length s = 10 \<and> s ! 4 = CHR ''-'' \<and> s ! 7 = CHR ''-''
         \<and> list_all is_digit (take 4 s) \<and> list_all is_digit (take 2 (drop 5 s))
         \<and> list_all is_digit (drop 8 s)
      then
        (let y = number_of (take 4 s); m = number_of (take 2 (drop 5 s));
             d = number_of (drop 8 s)
         in if 1 \<le> m \<and> m \<le> 12 \<and> 1 \<le> d \<and> d \<le> monthLengths y ! nat (m - 1)
            then Some (86400000 *
                   (dayFromYear y + sum_list (take (nat (m - 1)) (monthLengths y)) + d - 1))
            else None)
      else None)"

text \<open>\<^verbatim>\<open>new Date(s).getTime()\<close>\<close>

definition getTime :: "engine \<Rightarrow> string \<Rightarrow> jsnum" where
  "getTime E s = (case isoDate s of Some t \<Rightarrow> Num (of_int t) | None \<Rightarrow> dateFallback E s)"

subsection \<open>Sorting\<close>

text \<open>
  \<^verbatim>\<open>x - y\<close> on numbers, computed exactly. The difference of two doubles has the sign of the
  exact difference, and the sort below reads only the sign.
\<close>

fun minus_num :: "jsnum \<Rightarrow> jsnum \<Rightarrow> jsnum" where
  "minus_num (Num a) (Num b) = Num (a - b)"
| "minus_num NaN y = NaN"
| "minus_num x NaN = NaN"
| "minus_num PosInf PosInf = NaN"
| "minus_num NegInf NegInf = NaN"
| "minus_num PosInf y = PosInf"
| "minus_num NegInf y = NegInf"
| "minus_num (Num a) PosInf = NegInf"
| "minus_num (Num a) NegInf = PosInf"

text \<open>
  \<^verbatim>\<open>Array.prototype.sort(cmp)\<close> is stable, and a comparison that is NaN counts as zero.
  For a comparator that is a consistent ordering, every conforming engine returns the same
  array, which insertion from the right computes: an element goes behind the elements that
  the comparator puts strictly before it, and in front of its equals that followed it. A
  throw of the comparator ends the sort.
\<close>

fun insertSorted :: "('a \<Rightarrow> 'a \<Rightarrow> js_error + jsnum) \<Rightarrow> 'a \<Rightarrow> 'a list \<Rightarrow> js_error + 'a list" where
  "insertSorted cmp x [] = Inr [x]"
| "insertSorted cmp x (y # ys) =
     andThen (cmp x y) (\<lambda>v.
     if positive v then andThen (insertSorted cmp x ys) (\<lambda>zs. Inr (y # zs))
     else Inr (x # y # ys))"

fun arraySort :: "('a \<Rightarrow> 'a \<Rightarrow> js_error + jsnum) \<Rightarrow> 'a list \<Rightarrow> js_error + 'a list" where
  "arraySort cmp [] = Inr []"
| "arraySort cmp (x # xs) = andThen (arraySort cmp xs) (insertSorted cmp x)"

subsection \<open>\<^verbatim>\<open>normalizeProventos\<close>\<close>

record earning = point +
  type :: jsval

text \<open>
  \<^verbatim>\<open>item => ({ name: item.ed || item.pd, value: Number(item.v || 0), type: item.et })\<close>
\<close>

definition earningItem :: "engine \<Rightarrow> json \<Rightarrow> js_error + earning" where
  "earningItem E item =
     andThen (field (Some item) ''ed'') (\<lambda>ed.
     andThen (if truthy ed then Inr ed else field (Some item) ''pd'') (\<lambda>nm.
     andThen (field (Some item) ''v'') (\<lambda>v.
     andThen (to_number E (if truthy v then v else Some (JNum (Num 0)))) (\<lambda>n.
     andThen (field (Some item) ''et'') (\<lambda>et.
     Inr \<lparr>name = nm, value = n, type = et\<rparr>)))))"

text \<open>
  The function \<^verbatim>\<open>parse\<close> of the comparator. \<^verbatim>\<open>d.split\<close> is a function only when \<^verbatim>\<open>d\<close>
  is a string.
\<close>

definition parse :: "engine \<Rightarrow> jsval \<Rightarrow> js_error + jsnum" where
  "parse E d =
     (if \<not> truthy d then Inr (Num 0)
      else (case d of
              Some (JStr s) \<Rightarrow>
                (let parts = split_on CHR ''/'' s
                 in if length parts = 3
                    then Inr (getTime E (parts ! 2 @ ''-'' @ parts ! 1 @ ''-'' @ parts ! 0))
                    else Inr (getTime E s))
            | _ \<Rightarrow> Inl TypeError))"

text \<open>\<^verbatim>\<open>(a, b) => parse(a.name) - parse(b.name)\<close>\<close>

definition byDate :: "engine \<Rightarrow> earning \<Rightarrow> earning \<Rightarrow> js_error + jsnum" where
  "byDate E a b =
     andThen (parse E (name a)) (\<lambda>x. andThen (parse E (name b)) (\<lambda>y. Inr (minus_num x y)))"

definition normalizeProventos :: "engine \<Rightarrow> json \<Rightarrow> js_error + earning list" where
  "normalizeProventos E data =
     (if \<not> truthy (Some data) then Inr []
      else andThen (field (Some data) ''assetEarningsModels'') (\<lambda>models.
           if \<not> truthy models then Inr []
           else (case models of
                   Some (JArr items) \<Rightarrow>
                     andThen (traverse (earningItem E) items) (arraySort (byDate E))
                 | _ \<Rightarrow> Inl TypeError)))"

section \<open>Simulated data\<close>

text \<open>
  \<^verbatim>\<open>Math.random()\<close> is the stream \<open>rnd\<close> of the draws to come, read at a counter that
  every call advances. The sums are computed exactly; the source computes them in doubles.
\<close>

definition years :: "string list" where
  "years = [''2019'', ''2020'', ''2021'', ''2022'', ''2023'', ''2024'']"

definition months :: "string list" where
  "months = [''Jan'', ''Fev'', ''Mar'', ''Abr'', ''Mai'', ''Jun'',
             ''Jul'', ''Ago'', ''Set'', ''Out'', ''Nov'', ''Dez'']"

text \<open>
  \<^verbatim>\<open>years.map((y, i) => ({ name: y, value: base + i * step + Math.random() * spread }))\<close>,
  from index \<open>i\<close> and counter \<open>k\<close>; the result holds the counter after the map.
\<close>

fun yearly :: "(nat \<Rightarrow> rat) \<Rightarrow> rat \<Rightarrow> rat \<Rightarrow> rat \<Rightarrow> nat \<Rightarrow> nat \<Rightarrow> string list \<Rightarrow> point list \<times> nat" where
  "yearly rnd base step spread i k [] = ([], k)"
| "yearly rnd base step spread i k (y # ys) =
     (let p = \<lparr>name = Some (JStr y), value = Num (base + of_nat i * step + rnd k * spread)\<rparr>;
          (ps, k') = yearly rnd base step spread (Suc i) (Suc k) ys
      in (p # ps, k'))"

text \<open>
  \<^verbatim>\<open>months.map((m) => ({ name: m,
      value: isFii ? (0.8 + Math.random() * 0.4)
                   : (Math.random() > 0.7 ? 1.5 + Math.random() * 2 : 0),
      type: isFii ? 'Rendimento' : 'Dividendo' }))\<close>
\<close>

fun monthly :: "(nat \<Rightarrow> rat) \<Rightarrow> bool \<Rightarrow> nat \<Rightarrow> string list \<Rightarrow> earning list" where
  "monthly rnd isFii k [] = []"
| "monthly rnd isFii k (m # ms) =
     (if isFii
      then \<lparr>name = Some (JStr m), value = Num (4 / 5 + rnd k * (2 / 5)),
            type = Some (JStr ''Rendimento'')\<rparr> # monthly rnd isFii (Suc k) ms
      else if rnd k > 7 / 10
      then \<lparr>name = Some (JStr m), value = Num (3 / 2 + rnd (Suc k) * 2),
            type = Some (JStr ''Dividendo'')\<rparr> # monthly rnd isFii (Suc (Suc k)) ms
      else \<lparr>name = Some (JStr m), value = Num 0,
            type = Some (JStr ''Dividendo'')\<rparr> # monthly rnd isFii (Suc k) ms)"

definition endsWith :: "string \<Rightarrow> string \<Rightarrow> bool" where
  "endsWith s suffix =
     (length suffix \<le> length s \<and> drop (length s - length suffix) s = suffix)"

text \<open>
  The label of equities in the source is the four letters A, C with cedilla, A with tilde,
  O: the code units 65, 199, 195, 79.
\<close>

definition ACAO :: string where
  "ACAO = [CHR ''A'', CHR 0xC7, CHR 0xC3, CHR ''O'']"

record snapshot =
  patrimonio :: "point list"
  receitas :: "point list"
  despesas :: "point list"
  caixa :: "point list"
  resultado :: "point list"
  proventos :: "earning list"
  isMock :: bool
  categoria :: string

definition generateMockData :: "(nat \<Rightarrow> rat) \<Rightarrow> string \<Rightarrow> snapshot" where
  "generateMockData rnd ticker =
     (let isFii = (length ticker = 6 \<and> endsWith ticker ''11'');
          (pat, k1) = yearly rnd 1000000000 150000000 50000000 0 0 years;
          (rec, k2) = yearly rnd 200000000 20000000 10000000 0 k1 years;
          (desp, k3) = yearly rnd 150000000 10000000 5000000 0 k2 years;
          (cx, k4) = yearly rnd 50000000 0 20000000 0 k3 years;
          (res, k5) = yearly rnd 50000000 10000000 5000000 0 k4 years
      in \<lparr>patrimonio = pat, receitas = rec, despesas = desp, caixa = cx, resultado = res,
          proventos = monthly rnd isFii k5 months,
          isMock = True,
          categoria = (if isFii then ''FII'' else ACAO)\<rparr>)"

section \<open>The query pipeline of \<^verbatim>\<open>src/App.jsx\<close>\<close>

definition is_alnum :: "char \<Rightarrow> bool" where
  "is_alnum c =
     (let n = (of_char c :: nat)
      in (48 \<le> n \<and> n \<le> 57) \<or> (65 \<le> n \<and> n \<le> 90) \<or> (97 \<le> n \<and> n \<le> 122))"

definition hex_digit :: "nat \<Rightarrow> char" where
  "hex_digit n = ''0123456789ABCDEF'' ! (n mod 16)"

definition percent :: "nat \<Rightarrow> string" where
  "percent byte = [CHR ''%'', hex_digit (byte div 16), hex_digit byte]"

text \<open>
  \<^verbatim>\<open>encodeURIComponent\<close> on code units below 256: letters, digits and
  \<^verbatim>\<open>- _ . ! ~ * ' ( )\<close> stay, every other code unit becomes the escaped bytes of its UTF-8
  form.
\<close>

definition encodeUnit :: "char \<Rightarrow> string" where
  "encodeUnit c =
     (let n = (of_char c :: nat)
      in if is_alnum c \<or> c \<in> set ''-_.!~*()'' \<or> c = CHR 0x27 then [c]
         else if n < 128 then percent n
         else percent (192 + n div 64) @ percent (128 + n mod 64))"

definition encodeURIComponent :: "string \<Rightarrow> string" where
  "encodeURIComponent s = concat (map encodeUnit s)"

definition SI_BASE :: string where
  "SI_BASE = ''https://statusinvest.com.br''"

text \<open>
  What the browser's \<^verbatim>\<open>fetch\<close> of a relay URL settles to: \<^term>\<open>None\<close> when it rejects,
  otherwise the response with its \<^verbatim>\<open>ok\<close> flag, its status, and the value that
  \<^verbatim>\<open>res.json()\<close> resolves to (\<^term>\<open>None\<close> when that rejects).
\<close>

record response =
  ok :: bool
  httpStatus :: nat
  json :: "json option"

type_synonym network = "string \<Rightarrow> response option"

text \<open>
  \<^verbatim>\<open>proxyFetch\<close>. On a response that is not ok the error body is read with
  \<^verbatim>\<open>res.json().catch(() => ({}))\<close>, \<^verbatim>\<open>err.error\<close> is read from it, and
  \<^verbatim>\<open>new Error(err.error || ...)\<close> converts a truthy \<^verbatim>\<open>err.error\<close> to a string before the
  throw.
\<close>

definition proxyFetch :: "engine \<Rightarrow> network \<Rightarrow> string \<Rightarrow> js_error + json" where
  "proxyFetch E net path =
     (let targetUrl = SI_BASE @ path;
          proxyUrl = ''/api/proxy?url='' @ encodeURIComponent targetUrl
      in case net proxyUrl of
           None \<Rightarrow> Inl FetchFailed
         | Some res \<Rightarrow>
             if \<not> ok res
             then andThen (field (Some (case json res of None \<Rightarrow> JObj [] | Some e \<Rightarrow> e)) ''error'')
                    (\<lambda>msg. case msg of
                       None \<Rightarrow> Inl (HttpFailure (httpStatus res))
                     | Some m \<Rightarrow>
                         if truthy msg
                         then andThen (to_string E m) (\<lambda>text. Inl (HttpFailure (httpStatus res)))
                         else Inl (HttpFailure (httpStatus res)))
             else (case json res of None \<Rightarrow> Inl SyntaxError | Some j \<Rightarrow> Inr j))"

text \<open>\<^verbatim>\<open>safeFetch\<close>: \<^verbatim>\<open>try { return await proxyFetch(path); } catch { return null; }\<close>\<close>

definition safeFetch :: "engine \<Rightarrow> network \<Rightarrow> string \<Rightarrow> json" where
  "safeFetch E net path = (case proxyFetch E net path of Inl e \<Rightarrow> JNull | Inr j \<Rightarrow> j)"

definition startsWith :: "string \<Rightarrow> string \<Rightarrow> bool" where
  "startsWith s prefix = (take (length prefix) s = prefix)"

text \<open>\<^verbatim>\<open>s.includes(t)\<close> on strings.\<close>

fun includesStr :: "string \<Rightarrow> string \<Rightarrow> bool" where
  "includesStr [] t = (t = [])"
| "includesStr (c # cs) t = (startsWith (c # cs) t \<or> includesStr cs t)"

text \<open>
  \<^verbatim>\<open>urlStr.includes(t)\<close> on whatever \<^verbatim>\<open>searchData[0].url || ''\<close> is: a string has the
  substring test, an array the membership test, nothing else has the method.
\<close>

fun includesOn :: "jsval \<Rightarrow> string \<Rightarrow> js_error + bool" where
  "includesOn (Some (JStr s)) t = Inr (includesStr s t)"
| "includesOn (Some (JArr xs)) t = Inr (JStr t \<in> set xs)"
| "includesOn v t = Inl TypeError"

text \<open>
  The category inference, lines 156 to 162:
  \<^verbatim>\<open>let categoria = 'acoes';
  if (Array.isArray(searchData) && searchData.length > 0) {
    const urlStr = searchData[0].url || '';
    if (urlStr.includes('fundos-imobiliarios')) categoria = 'fii';
    else if (urlStr.includes('fiagros'))         categoria = 'fiagro';
    else if (urlStr.includes('acoes'))           categoria = 'acoes';
  }\<close>
\<close>

fun inferCategoria :: "json \<Rightarrow> js_error + string" where
  "inferCategoria (JArr (x # xs)) =
     andThen (field (Some x) ''url'') (\<lambda>u.
     let urlStr = (if truthy u then u else Some (JStr []))
     in andThen (includesOn urlStr ''fundos-imobiliarios'') (\<lambda>fii.
        if fii then Inr ''fii''
        else andThen (includesOn urlStr ''fiagros'') (\<lambda>fiagro.
             if fiagro then Inr ''fiagro''
             else andThen (includesOn urlStr ''acoes'') (\<lambda>acoes. Inr ''acoes''))))"
| "inferCategoria searchData = Inr ''acoes''"

text \<open>
  The endpoint paths of lines 165 to 172: five of the form
  \<^verbatim>\<open>/${categoria}/${name}?code=${ticker}&type=0\<close> and the one of the earnings.
\<close>

definition chartPath :: "string \<Rightarrow> string \<Rightarrow> string \<Rightarrow> string" where
  "chartPath cat endpoint ticker = ''/'' @ cat @ ''/'' @ endpoint @ ''?code='' @ ticker @ ''&type=0''"

definition proventosPath :: "string \<Rightarrow> string \<Rightarrow> string" where
  "proventosPath cat ticker =
     ''/'' @ cat @ ''/companytickerprovents?companyName='' @ ticker @ ''&chartProventsType=1''"

text \<open>
  The test of line 190 on one result:
  \<^verbatim>\<open>r === null || (typeof r === 'object' && !Array.isArray(r) && Object.keys(r).length === 0)\<close>
\<close>

fun emptyResult :: "json \<Rightarrow> bool" where
  "emptyResult JNull = True"
| "emptyResult (JObj kvs) = (length (map fst kvs) = 0)"
| "emptyResult r = False"

text \<open>
  Lines 189 to 202: the throw when every result is empty, otherwise the snapshot of the
  normalized results. A throw of a normalizer leaves the block like any other.
\<close>

definition aggregate ::
  "engine \<Rightarrow> string \<Rightarrow> json \<Rightarrow> json \<Rightarrow> json \<Rightarrow> json \<Rightarrow> json \<Rightarrow> json \<Rightarrow> js_error + snapshot" where
  "aggregate E cat pat rec desp cx res prov =
     (if list_all emptyResult [pat, rec, desp, cx, res, prov] then Inl AllEndpointsEmpty
      else andThen (normalizeGenericChartData E pat) (\<lambda>patrimonio'.
           andThen (normalizeGenericChartData E rec) (\<lambda>receitas'.
           andThen (normalizeGenericChartData E desp) (\<lambda>despesas'.
           andThen (normalizeGenericChartData E cx) (\<lambda>caixa'.
           andThen (normalizeGenericChartData E res) (\<lambda>resultado'.
           andThen (normalizeProventos E prov) (\<lambda>proventos'.
           Inr \<lparr>patrimonio = patrimonio', receitas = receitas', despesas = despesas',
                caixa = caixa', resultado = resultado', proventos = proventos',
                isMock = False,
                categoria = (if cat = ''fii'' then ''FII''
                             else if cat = ''fiagro'' then ''FIAGRO'' else ACAO)\<rparr>)))))))"

text \<open>
  The body of the \<^verbatim>\<open>try\<close> block of \<^verbatim>\<open>fetchFinancialData\<close>: the search, the category,
  the six results of \<^verbatim>\<open>safeFetch\<close> awaited together, and the aggregation.
\<close>

definition realData :: "engine \<Rightarrow> network \<Rightarrow> string \<Rightarrow> js_error + snapshot" where
  "realData E net ticker =
     andThen (proxyFetch E net (''/home/mainsearchquery?q='' @ ticker)) (\<lambda>searchData.
     andThen (inferCategoria searchData) (\<lambda>cat.
     aggregate E cat
       (safeFetch E net (chartPath cat ''getpatrimonioliquido'' ticker))
       (safeFetch E net (chartPath cat ''getreceitas'' ticker))
       (safeFetch E net (chartPath cat ''getdespesas'' ticker))
       (safeFetch E net (chartPath cat ''getcaixa'' ticker))
       (safeFetch E net (chartPath cat ''getresultado'' ticker))
       (safeFetch E net (proventosPath cat ticker))))"

definition is_space :: "char \<Rightarrow> bool" where
  "is_space c = ((of_char c :: nat) \<in> {9, 10, 11, 12, 13, 32, 160})"

definition trimStart :: "string \<Rightarrow> string" where
  "trimStart s = dropWhile is_space s"

definition trim :: "string \<Rightarrow> string" where
  "trim s = rev (dropWhile is_space (rev (dropWhile is_space s)))"

text \<open>
  The state that \<^verbatim>\<open>fetchFinancialData\<close> leaves in the component: the data shown, the
  error behind the notice (\<^term>\<open>None\<close> for no notice), the ticker shown.
\<close>

record view =
  data :: snapshot
  error :: "js_error option"
  currentTicker :: string

text \<open>
  \<^verbatim>\<open>fetchFinancialData\<close>: \<^term>\<open>None\<close> is the early return on an empty ticker, which
  leaves the state as it was. The \<^verbatim>\<open>catch\<close> takes every throw of the block.
\<close>

definition fetchFinancialData ::
  "engine \<Rightarrow> network \<Rightarrow> (nat \<Rightarrow> rat) \<Rightarrow> string \<Rightarrow> view option" where
  "fetchFinancialData E net rnd tickerRaw =
     (let ticker = toUpperCase E (trim tickerRaw)
      in if ticker = [] then None
         else Some (case realData E net ticker of
                      Inr snap \<Rightarrow> \<lparr>data = snap, error = None, currentTicker = ticker\<rparr>
                    | Inl err \<Rightarrow> \<lparr>data = generateMockData rnd ticker, error = Some err,
                                 currentTicker = ticker\<rparr>))"

section \<open>The relay, \<^verbatim>\<open>src/proxy.js\<close>\<close>

text \<open>
  \<^verbatim>\<open>req.query.url\<close> is absent, one string, or the list of the strings of a repeated
  parameter; where a string is needed the list is its elements joined by commas.
\<close>

datatype param = Single string | Many "string list"

fun param_text :: "param \<Rightarrow> string" where
  "param_text (Single s) = s"
| "param_text (Many ss) = join_comma ss"

text \<open>What \<^verbatim>\<open>!url\<close> tests on a parameter that is present: the empty string is falsy.\<close>

fun given :: "param \<Rightarrow> bool" where
  "given (Single s) = (s \<noteq> [])"
| "given (Many ss) = True"

record request =
  "method" :: string
  url :: "param option"

text \<open>
  \<^verbatim>\<open>new URL(s)\<close> with no base: leading and trailing C0 controls and spaces go, tabs and
  newlines go, and a string that does not then start with a scheme (a letter, then letters,
  digits, \<^verbatim>\<open>+\<close>, \<^verbatim>\<open>-\<close> or \<^verbatim>\<open>.\<close>, then a colon) is not a URL. What the parser makes of a
  string with a scheme is the parameter \<open>host\<close>: the hostname, or \<^term>\<open>None\<close> for a throw.
\<close>

definition is_alpha :: "char \<Rightarrow> bool" where
  "is_alpha c =
     (let n = (of_char c :: nat) in (65 \<le> n \<and> n \<le> 90) \<or> (97 \<le> n \<and> n \<le> 122))"

fun schemeRest :: "string \<Rightarrow> bool" where
  "schemeRest [] = False"
| "schemeRest (c # cs) =
     (if c = CHR '':'' then True
      else if is_alnum c \<or> c \<in> set ''+-.'' then schemeRest cs
      else False)"

definition hasScheme :: "string \<Rightarrow> bool" where
  "hasScheme s = (case s of [] \<Rightarrow> False | c # cs \<Rightarrow> is_alpha c \<and> schemeRest cs)"

definition c0_or_space :: "char \<Rightarrow> bool" where
  "c0_or_space c = ((of_char c :: nat) \<le> 32)"

definition urlInput :: "string \<Rightarrow> string" where
  "urlInput s =
     filter (\<lambda>c. (of_char c :: nat) \<notin> {9, 10, 13})
       (rev (dropWhile c0_or_space (rev (dropWhile c0_or_space s))))"

definition hostname :: "(string \<Rightarrow> string option) \<Rightarrow> string \<Rightarrow> string option" where
  "hostname host s = (if hasScheme (urlInput s) then host s else None)"

text \<open>
  What the relay's \<^verbatim>\<open>fetch\<close> and \<^verbatim>\<open>response.text()\<close> settle to: the message of the
  error when either rejects, otherwise the status, the \<^verbatim>\<open>content-type\<close> header and the
  body.
\<close>

record upstream =
  status :: nat
  contentType :: "string option"
  rawText :: string

datatype body =
    NoBody
  | MissingUrl
  | InvalidUrl string
  | ForbiddenDomain
  | Blocked nat string
  | InvalidJson string
  | ProxyError string
  | Payload json

text \<open>
  The reply: the status code, the body, the headers set with \<^verbatim>\<open>res.setHeader\<close> in the
  order of the calls, and the URLs that the handler has fetched.
\<close>

record reply =
  code :: nat
  content :: body
  headers :: "(string \<times> string) list"
  fetched :: "string list"

definition cors :: "(string \<times> string) list" where
  "cors = [(''Access-Control-Allow-Origin'', ''*''),
           (''Access-Control-Allow-Methods'', ''GET, OPTIONS''),
           (''Access-Control-Allow-Headers'', ''Content-Type'')]"

text \<open>
  The test of lines 58 to 63:
  \<^verbatim>\<open>!response.ok || contentType.includes('text/html') ||
  rawText.trimStart().startsWith('<!') || rawText.trimStart().startsWith('<html')\<close>
\<close>

definition challenge :: "upstream \<Rightarrow> bool" where
  "challenge r =
     (\<not> (200 \<le> status r \<and> status r \<le> 299)
      \<or> includesStr (case contentType r of None \<Rightarrow> [] | Some t \<Rightarrow> t) ''text/html''
      \<or> startsWith (trimStart (rawText r)) ''<!''
      \<or> startsWith (trimStart (rawText r)) ''<html'')"

definition handler ::
  "(string \<Rightarrow> string option) \<Rightarrow> (string \<Rightarrow> string + upstream) \<Rightarrow> (string \<Rightarrow> json option)
     \<Rightarrow> request \<Rightarrow> reply" where
  "handler host web jsonParse req =
     (if method req = ''OPTIONS''
      then \<lparr>code = 200, content = NoBody, headers = cors, fetched = []\<rparr>
      else
        (case url req of
           None \<Rightarrow> \<lparr>code = 400, content = MissingUrl, headers = cors, fetched = []\<rparr>
         | Some q \<Rightarrow>
             if \<not> given q
             then \<lparr>code = 400, content = MissingUrl, headers = cors, fetched = []\<rparr>
             else
               (let targetUrl = param_text q
                in case hostname host targetUrl of
                     None \<Rightarrow>
                       \<lparr>code = 400, content = InvalidUrl targetUrl, headers = cors,
                        fetched = []\<rparr>
                   | Some h \<Rightarrow>
                       if \<not> endsWith h ''statusinvest.com.br''
                       then \<lparr>code = 403, content = ForbiddenDomain, headers = cors,
                             fetched = []\<rparr>
                       else
                         (case web targetUrl of
                            Inl message \<Rightarrow>
                              \<lparr>code = 500, content = ProxyError message, headers = cors,
                               fetched = [targetUrl]\<rparr>
                          | Inr r \<Rightarrow>
                              if challenge r
                              then \<lparr>code = 503,
                                    content = Blocked (status r) (take 200 (rawText r)),
                                    headers = cors, fetched = [targetUrl]\<rparr>
                              else
                                (case jsonParse (rawText r) of
                                   None \<Rightarrow>
                                     \<lparr>code = 502,
                                      content = InvalidJson (take 200 (rawText r)),
                                      headers = cors, fetched = [targetUrl]\<rparr>
                                 | Some j \<Rightarrow>
                                     \<lparr>code = 200, content = Payload j,
                                      headers = cors @
                                        [(''Cache-Control'',
                                          ''s-maxage=300, stale-while-revalidate=60''),
                                         (''Content-Type'', ''application/json'')],
                                      fetched = [targetUrl]\<rparr>)))))"

section \<open>The dates as the specification reads them\<close>




section \<open>Concrete surroundings for the examples\<close>

text \<open>
  The theorems below hold for every engine, every network and every stream of random draws.
  The examples need one of each. \<open>plainEngine\<close> upper-cases the ASCII letters and answers
  NaN wherever a real engine would have to print a number, read a number from a string or
  parse a date that is not a plain ISO date; the examples do none of these. \<open>searchDown\<close>
  is a network on which the search request is rejected while every other request is answered
  with a one-point series.
\<close>

definition upperAscii :: "char \<Rightarrow> char" where
  "upperAscii c =
     (let n = (of_char c :: nat) in if 97 \<le> n \<and> n \<le> 122 then char_of (n - 32) else c)"

definition plainEngine :: engine where
  "plainEngine =
     \<lparr>numberToString = (\<lambda>n. ''NaN''), stringToNumber = (\<lambda>s. NaN),
      dateFallback = (\<lambda>s. NaN), toUpperCase = map upperAscii\<rparr>"

definition searchDown :: network where
  "searchDown u =
     (if includesStr u ''mainsearchquery'' then None
      else Some \<lparr>ok = True, httpStatus = 200,
                 json = Some (JArr [JObj [(''date'', JStr ''2023''),
                                         (''value'', JNum (Num 1))]])\<rparr>)"

section \<open>Auxiliary facts\<close>

lemma andThen_Inr [simp]: "andThen (Inr x) f = f x"
  by (simp add: andThen_def)

lemma andThen_Inl [simp]: "andThen (Inl e) f = Inl e"
  by (simp add: andThen_def)

lemma traverse_total:
  "(\<And>x. x \<in> set xs \<Longrightarrow> f x = Inr (g x)) \<Longrightarrow> traverse f xs = Inr (map g xs)"
  by (induction xs) simp_all

lemma traverse_error:
  "traverse f xs = Inl e \<Longrightarrow> (\<And>x. f x = Inl e \<Longrightarrow> P) \<Longrightarrow> P"
  by (induction xs) (auto simp: andThen_def split: sum.splits)

lemma zip_upt_nth: "zip xs [0..<length xs] = map (\<lambda>i. (xs ! i, i)) [0..<length xs]"
  by (rule nth_equalityI) simp_all

lemma positive_Suc: "positive (Num (of_nat (Suc n)))"
  by (simp add: positive_def of_nat_0_less_iff del: of_nat_Suc)


subsection \<open>Every throw of the normalizers is a TypeError\<close>

lemma field_error: "field v p = Inl e \<Longrightarrow> e = TypeError"
  by (cases "(v, p)" rule: field.cases) auto

lemma index_at_error: "index_at v i = Inl e \<Longrightarrow> e = TypeError"
  by (cases "(v, i)" rule: index_at.cases) auto

lemma conversion_error:
  "to_string E x = Inl e \<Longrightarrow> e = TypeError"
  "join_elements E xs = Inl e \<Longrightarrow> e = TypeError"
  by (induction E x and E xs rule: to_string_join_elements.induct)
     (auto simp: andThen_def split: sum.splits if_splits json.splits)

lemma to_number_error: "to_number E v = Inl e \<Longrightarrow> e = TypeError"
  by (cases "(E, v)" rule: to_number.cases)
     (auto simp: andThen_def split: sum.splits if_splits dest: conversion_error)

lemma conversion_of_primitive:
  assumes "\<forall>xs. x \<noteq> JArr xs" and "\<forall>kvs. x \<noteq> JObj kvs"
  shows "(\<exists>s. to_string E x = Inr s) \<and> (\<exists>n. to_number E (Some x) = Inr n)"
  using assms by (cases x) simp_all

lemma gt_zero_error: "gt_zero E v = Inl e \<Longrightarrow> e = TypeError"
  by (auto simp: gt_zero_def andThen_def split: sum.splits dest: to_number_error)

lemma chartItem_error: "chartItem E item = Inl e \<Longrightarrow> e = TypeError"
  by (auto simp: chartItem_def andThen_def split: sum.splits if_splits
           dest: field_error to_number_error)

lemma seriesItem_error: "seriesItem E sd ci = Inl e \<Longrightarrow> e = TypeError"
  by (auto simp: seriesItem_def andThen_def split: sum.splits
           dest: index_at_error conversion_error(1) to_number_error)

lemma dateKeyed_error: "dateKeyed d = Inl e \<Longrightarrow> e = TypeError"
  by (cases d rule: dateKeyed.cases)
     (auto simp: andThen_def split: sum.splits if_splits dest: field_error)

lemma categoriesSeries_error: "categoriesSeries E d = Inl e \<Longrightarrow> e = TypeError"
  by (auto simp: categoriesSeries_def andThen_def
           split: sum.splits if_splits option.splits json.splits
           dest: field_error index_at_error gt_zero_error
           elim: traverse_error seriesItem_error)

lemma normalizeGenericChartData_error:
  "normalizeGenericChartData E d = Inl e \<Longrightarrow> e = TypeError"
  by (auto simp: normalizeGenericChartData_def andThen_def
           split: sum.splits if_splits json.splits
           dest: dateKeyed_error categoriesSeries_error elim: traverse_error chartItem_error)

lemma earningItem_error: "earningItem E item = Inl e \<Longrightarrow> e = TypeError"
  by (auto simp: earningItem_def andThen_def split: sum.splits if_splits
           dest: field_error to_number_error)

lemma parse_error: "parse E d = Inl e \<Longrightarrow> e = TypeError"
  by (auto simp: parse_def Let_def split: if_splits option.splits json.splits)

lemma byDate_error: "byDate E a b = Inl e \<Longrightarrow> e = TypeError"
  by (auto simp: byDate_def andThen_def split: sum.splits dest: parse_error)

lemma insertSorted_error:
  "insertSorted cmp x ys = Inl e \<Longrightarrow> (\<And>a b. cmp a b = Inl e \<Longrightarrow> P) \<Longrightarrow> P"
  by (induction ys) (auto simp: andThen_def split: sum.splits if_splits)

lemma arraySort_error:
  "arraySort cmp xs = Inl e \<Longrightarrow> (\<And>a b. cmp a b = Inl e \<Longrightarrow> P) \<Longrightarrow> P"
  by (induction xs) (auto simp: andThen_def split: sum.splits elim: insertSorted_error)

lemma normalizeProventos_error: "normalizeProventos E d = Inl e \<Longrightarrow> e = TypeError"
  by (auto simp: normalizeProventos_def andThen_def
           split: sum.splits if_splits option.splits json.splits
           dest: field_error byDate_error
           elim: traverse_error earningItem_error arraySort_error)

subsection \<open>The sort on a comparator that subtracts keys\<close>




lemma earningItem_succeeds:
  "item \<noteq> JNull \<Longrightarrow> field (Some item) ''v'' = Inr v \<Longrightarrow>
   to_number E (if truthy v then v else Some (JNum (Num 0))) = Inr n \<Longrightarrow>
   \<exists>e. earningItem E item = Inr e"
  by (cases item) (simp_all add: earningItem_def)


subsection \<open>The simulated series\<close>

lemma yearly_length: "length (fst (yearly rnd base step spread i k ys)) = length ys"
  by (induction ys arbitrary: i k) (simp_all add: case_prod_unfold Let_def)

lemma monthly_length: "length (monthly rnd isFii k ms) = length ms"
  by (induction ms arbitrary: k isFii) simp_all

subsection \<open>The pipeline and the relay\<close>

lemma emptyResult_iff: "emptyResult r = (r = JNull \<or> r = JObj [])"
  by (cases r) simp_all

lemma inferCategoria_range:
  "inferCategoria sd = Inr c \<Longrightarrow> c \<in> {''fii'', ''fiagro'', ''acoes''}"
  by (cases sd rule: inferCategoria.cases)
     (auto simp: andThen_def Let_def split: sum.splits if_splits)

lemma inferCategoria_other:
  "(\<forall>x xs. sd \<noteq> JArr (x # xs)) \<Longrightarrow> inferCategoria sd = Inr ''acoes''"
  by (cases sd rule: inferCategoria.cases) simp_all

lemma inferCategoria_no_match:
  "field (Some x) ''url'' = Inr (Some (JStr s)) \<Longrightarrow> \<not> includesStr s ''fundos-imobiliarios''
     \<Longrightarrow> \<not> includesStr s ''fiagros'' \<Longrightarrow> inferCategoria (JArr (x # xs)) = Inr ''acoes''"
  by (cases s) simp_all

text \<open>
  The \<^verbatim>\<open>catch\<close> of \<^verbatim>\<open>fetchFinancialData\<close>: whatever the block throws, the simulated data
  of the ticker is shown, with the notice.
\<close>

lemma fallback_on_throw:
  "toUpperCase E (trim raw) \<noteq> [] \<Longrightarrow> realData E net (toUpperCase E (trim raw)) = Inl e \<Longrightarrow>
   fetchFinancialData E net rnd raw =
     Some \<lparr>data = generateMockData rnd (toUpperCase E (trim raw)), error = Some e,
           currentTicker = toUpperCase E (trim raw)\<rparr>"
  by (simp add: fetchFinancialData_def Let_def)

lemma search_path:
  "includesStr
     (''/api/proxy?url='' @ encodeURIComponent (SI_BASE @ ''/home/mainsearchquery?q=PETR4''))
     ''mainsearchquery''"
  by (simp add: encodeURIComponent_def SI_BASE_def encodeUnit_def is_alnum_def percent_def
      hex_digit_def startsWith_def)

lemma hostname_nonempty: "hostname host s = Some h \<Longrightarrow> s \<noteq> []"
  by (auto simp: hostname_def urlInput_def hasScheme_def split: if_splits)

lemma given_param: "hostname host (param_text q) = Some h \<Longrightarrow> given q"
  by (cases q) (auto dest: hostname_nonempty)

section \<open>The claims of the specification\<close>

subsection \<open>C1: when the aggregate is a total failure\<close>

text \<open>
  Claim C1, as the code has it. For every batch of six endpoint results the aggregator
  throws its total-failure error if and only if every one of the six is \<^verbatim>\<open>null\<close> or an
  object without keys; an array, empty or not, is not an empty result. Whenever the
  aggregator returns a snapshot, the snapshot has \<^verbatim>\<open>isMock = false\<close>; and it returns one,
  made of the normalized results, when at least one result is not empty and no normalizer
  throws. (The throw is what \<open>fallback_on_throw\<close> turns into the simulated data.)
\<close>

theorem total_failure_rule:
  "(aggregate E cat pat rec desp cx res prov = Inl AllEndpointsEmpty)
     = (\<forall>r \<in> set [pat, rec, desp, cx, res, prov]. r = JNull \<or> r = JObj [])
   \<and> (\<forall>snap. aggregate E cat pat rec desp cx res prov = Inr snap \<longrightarrow> \<not> isMock snap)
   \<and> ((\<exists>r \<in> set [pat, rec, desp, cx, res, prov]. r \<noteq> JNull \<and> r \<noteq> JObj [])
        \<and> normalizeGenericChartData E pat = Inr a
        \<and> normalizeGenericChartData E rec = Inr b
        \<and> normalizeGenericChartData E desp = Inr c
        \<and> normalizeGenericChartData E cx = Inr d
        \<and> normalizeGenericChartData E res = Inr f
        \<and> normalizeProventos E prov = Inr g
      \<longrightarrow> (\<exists>snap. aggregate E cat pat rec desp cx res prov = Inr snap \<and> \<not> isMock snap
             \<and> patrimonio snap = a \<and> receitas snap = b \<and> despesas snap = c
             \<and> caixa snap = d \<and> resultado snap = f \<and> proventos snap = g))"
proof (intro conjI)
  show "(aggregate E cat pat rec desp cx res prov = Inl AllEndpointsEmpty)
     = (\<forall>r \<in> set [pat, rec, desp, cx, res, prov]. r = JNull \<or> r = JObj [])"
  proof (cases "list_all emptyResult [pat, rec, desp, cx, res, prov]")
    case True
    then show ?thesis by (simp add: aggregate_def emptyResult_iff)
  next
    case False
    have "aggregate E cat pat rec desp cx res prov \<noteq> Inl AllEndpointsEmpty"
    proof
      assume "aggregate E cat pat rec desp cx res prov = Inl AllEndpointsEmpty"
      with False have "AllEndpointsEmpty = TypeError"
        by (auto simp: aggregate_def andThen_def split: sum.splits
                 dest: normalizeGenericChartData_error normalizeProventos_error)
      then show False by simp
    qed
    with False show ?thesis by (simp add: emptyResult_iff)
  qed
next
  show "\<forall>snap. aggregate E cat pat rec desp cx res prov = Inr snap \<longrightarrow> \<not> isMock snap"
    by (auto simp: aggregate_def andThen_def split: sum.splits if_splits)
next
  show "(\<exists>r \<in> set [pat, rec, desp, cx, res, prov]. r \<noteq> JNull \<and> r \<noteq> JObj [])
        \<and> normalizeGenericChartData E pat = Inr a
        \<and> normalizeGenericChartData E rec = Inr b
        \<and> normalizeGenericChartData E desp = Inr c
        \<and> normalizeGenericChartData E cx = Inr d
        \<and> normalizeGenericChartData E res = Inr f
        \<and> normalizeProventos E prov = Inr g
      \<longrightarrow> (\<exists>snap. aggregate E cat pat rec desp cx res prov = Inr snap \<and> \<not> isMock snap
             \<and> patrimonio snap = a \<and> receitas snap = b \<and> despesas snap = c
             \<and> caixa snap = d \<and> resultado snap = f \<and> proventos snap = g)"
  proof (intro impI, elim conjE)
    assume ne: "\<exists>r \<in> set [pat, rec, desp, cx, res, prov]. r \<noteq> JNull \<and> r \<noteq> JObj []"
      and n: "normalizeGenericChartData E pat = Inr a"
        "normalizeGenericChartData E rec = Inr b"
        "normalizeGenericChartData E desp = Inr c"
        "normalizeGenericChartData E cx = Inr d"
        "normalizeGenericChartData E res = Inr f"
        "normalizeProventos E prov = Inr g"
    from ne have "\<not> list_all emptyResult [pat, rec, desp, cx, res, prov]"
      by (auto simp: emptyResult_iff)
    then show "\<exists>snap. aggregate E cat pat rec desp cx res prov = Inr snap \<and> \<not> isMock snap
             \<and> patrimonio snap = a \<and> receitas snap = b \<and> despesas snap = c
             \<and> caixa snap = d \<and> resultado snap = f \<and> proventos snap = g"
      using n by (simp add: aggregate_def)
  qed
qed

text \<open>
  An instance: five \<^verbatim>\<open>null\<close> results and one empty object are a total failure; one
  dated point among five \<^verbatim>\<open>null\<close> results gives a snapshot of real data.
\<close>

theorem total_failure_rule_witness:
  "aggregate plainEngine ''fii'' JNull JNull (JObj []) JNull JNull JNull = Inl AllEndpointsEmpty
   \<and> (\<exists>snap. aggregate plainEngine ''fii''
                (JArr [JObj [(''date'', JStr ''2023''), (''value'', JNum (Num 5))]])
                JNull JNull JNull JNull JNull = Inr snap
             \<and> \<not> isMock snap
             \<and> patrimonio snap = [\<lparr>name = Some (JStr ''2023''), value = Num 5\<rparr>])"
proof -
  have n: "normalizeGenericChartData plainEngine
             (JArr [JObj [(''date'', JStr ''2023''), (''value'', JNum (Num 5))]])
           = Inr [\<lparr>name = Some (JStr ''2023''), value = Num 5\<rparr>]"
    by (simp add: normalizeGenericChartData_def chartItem_def nullish_def)
  have z: "normalizeGenericChartData plainEngine JNull = Inr []"
      "normalizeProventos plainEngine JNull = Inr []"
    by (simp_all add: normalizeGenericChartData_def normalizeProventos_def)
  show ?thesis
    using total_failure_rule [of plainEngine "''fii''" JNull JNull "JObj []" JNull JNull JNull]
      total_failure_rule [of plainEngine "''fii''"
        "JArr [JObj [(''date'', JStr ''2023''), (''value'', JNum (Num 5))]]"
        JNull JNull JNull JNull JNull
        "[\<lparr>name = Some (JStr ''2023''), value = Num 5\<rparr>]" "[]" "[]" "[]" "[]" "[]"]
      n z
    by auto
qed

text \<open>
  The claim as written counts an empty array as an empty result. The code does not: with
  an empty array in the first place and \<^verbatim>\<open>null\<close> in the five others the aggregator
  returns a snapshot of real data, with six empty series.
\<close>

theorem empty_array_counterexample:
  "aggregate plainEngine ''acoes'' (JArr []) JNull JNull JNull JNull JNull =
     Inr \<lparr>patrimonio = [], receitas = [], despesas = [], caixa = [], resultado = [],
          proventos = [], isMock = False, categoria = ACAO\<rparr>"
  by (simp add: aggregate_def normalizeGenericChartData_def categoriesSeries_def
        normalizeProventos_def)

subsection \<open>C2: what becomes of a failed classification\<close>

text \<open>
  Claim C2, as the code has it. The category inferred from a search result is one of
  \<^verbatim>\<open>fii\<close>, \<^verbatim>\<open>fiagro\<close> and \<^verbatim>\<open>acoes\<close>. It is the default \<^verbatim>\<open>acoes\<close> in three cases: the
  result is not a non-empty array; the read of \<^verbatim>\<open>url\<close> from the first entry succeeds (the
  entry is not \<^verbatim>\<open>null\<close>) and gives nothing or a falsy value; the read gives a string that
  contains neither of the two markers of funds. Whenever the search succeeds and a category
  is inferred, the pipeline goes on to aggregate the six endpoints of that category. When
  the search request itself fails, no category is inferred: the error leaves the block, the
  \<^verbatim>\<open>catch\<close> takes it, and the simulated data is shown with the error as notice. In every
  case the query of a non-empty ticker settles to a view; nothing is thrown to the caller.
  (Nothing is said here of a first entry that is \<^verbatim>\<open>null\<close> or whose \<^verbatim>\<open>url\<close> is neither
  falsy nor a string.)
\<close>

theorem classification_absorbed:
  "((\<forall>x xs. sd \<noteq> JArr (x # xs)) \<longrightarrow> inferCategoria sd = Inr ''acoes'')
   \<and> (field (Some x) ''url'' = Inr u \<and> \<not> truthy u \<longrightarrow>
        inferCategoria (JArr (x # xs)) = Inr ''acoes'')
   \<and> (field (Some x) ''url'' = Inr (Some (JStr s)) \<and> \<not> includesStr s ''fundos-imobiliarios''
        \<and> \<not> includesStr s ''fiagros'' \<longrightarrow>
        inferCategoria (JArr (x # xs)) = Inr ''acoes'')
   \<and> (inferCategoria sd = Inr c \<longrightarrow> c \<in> {''fii'', ''fiagro'', ''acoes''})
   \<and> (proxyFetch E net (''/home/mainsearchquery?q='' @ t) = Inr sd \<and> inferCategoria sd = Inr c \<longrightarrow>
        realData E net t =
          aggregate E c
            (safeFetch E net (chartPath c ''getpatrimonioliquido'' t))
            (safeFetch E net (chartPath c ''getreceitas'' t))
            (safeFetch E net (chartPath c ''getdespesas'' t))
            (safeFetch E net (chartPath c ''getcaixa'' t))
            (safeFetch E net (chartPath c ''getresultado'' t))
            (safeFetch E net (proventosPath c t)))
   \<and> (toUpperCase E (trim raw) = t \<and> t \<noteq> []
        \<and> proxyFetch E net (''/home/mainsearchquery?q='' @ t) = Inl e \<longrightarrow>
        fetchFinancialData E net rnd raw =
          Some \<lparr>data = generateMockData rnd t, error = Some e, currentTicker = t\<rparr>)
   \<and> (toUpperCase E (trim raw) \<noteq> [] \<longrightarrow> (\<exists>v. fetchFinancialData E net rnd raw = Some v))"
proof (intro conjI impI)
  assume "toUpperCase E (trim raw) = t \<and> t \<noteq> []
        \<and> proxyFetch E net (''/home/mainsearchquery?q='' @ t) = Inl e"
  then show "fetchFinancialData E net rnd raw =
          Some \<lparr>data = generateMockData rnd t, error = Some e, currentTicker = t\<rparr>"
    using fallback_on_throw [of E raw net e rnd] by (auto simp: realData_def)
next
  assume "toUpperCase E (trim raw) \<noteq> []"
  then show "\<exists>v. fetchFinancialData E net rnd raw = Some v"
    by (simp add: fetchFinancialData_def Let_def)
qed (auto simp: inferCategoria_other inferCategoria_no_match realData_def
          dest: inferCategoria_range)

text \<open>
  Instances: an empty result set, a first entry without \<^verbatim>\<open>url\<close> and a \<^verbatim>\<open>url\<close> without
  a marker all give \<^verbatim>\<open>acoes\<close>; on a network that answers every request with the empty
  array the query goes on with \<^verbatim>\<open>acoes\<close> to a snapshot of real data; on the network
  \<open>searchDown\<close> the query of \<^verbatim>\<open>PETR4\<close> ends in the simulated data.
\<close>

theorem classification_absorbed_witness:
  "inferCategoria (JArr []) = Inr ''acoes''
   \<and> inferCategoria (JArr [JObj [(''name'', JStr ''x'')]]) = Inr ''acoes''
   \<and> inferCategoria (JArr [JObj [(''url'', JStr ''/etfs/bova11'')]]) = Inr ''acoes''
   \<and> realData plainEngine (\<lambda>u. Some \<lparr>ok = True, httpStatus = 200, json = Some (JArr [])\<rparr>)
        ''PETR4''
      = Inr \<lparr>patrimonio = [], receitas = [], despesas = [], caixa = [], resultado = [],
             proventos = [], isMock = False, categoria = ACAO\<rparr>
   \<and> fetchFinancialData plainEngine searchDown (\<lambda>n. 0) ''PETR4'' =
        Some \<lparr>data = generateMockData (\<lambda>n. 0) ''PETR4'', error = Some FetchFailed,
              currentTicker = ''PETR4''\<rparr>"
proof -
  let ?quiet = "\<lambda>u::string. Some \<lparr>ok = True, httpStatus = 200, json = Some (JArr [])\<rparr>"
  have up: "toUpperCase plainEngine (trim ''PETR4'') = ''PETR4''"
    by code_simp
  have down: "proxyFetch plainEngine searchDown (''/home/mainsearchquery?q='' @ ''PETR4'') = Inl FetchFailed"
    using search_path by (simp add: proxyFetch_def searchDown_def Let_def)
  have no: "\<not> includesStr ''/etfs/bova11'' ''fundos-imobiliarios''"
       "\<not> includesStr ''/etfs/bova11'' ''fiagros''"
    by (simp_all add: startsWith_def)
  have found: "proxyFetch plainEngine ?quiet (''/home/mainsearchquery?q='' @ ''PETR4'') = Inr (JArr [])"
    by (simp add: proxyFetch_def Let_def)
  have each: "safeFetch plainEngine ?quiet path = JArr []" for path
    by (simp add: safeFetch_def proxyFetch_def Let_def)
  have real: "aggregate plainEngine ''acoes'' (JArr []) (JArr []) (JArr []) (JArr []) (JArr [])
        (JArr [])
      = Inr \<lparr>patrimonio = [], receitas = [], despesas = [], caixa = [], resultado = [],
             proventos = [], isMock = False, categoria = ACAO\<rparr>"
    by (simp add: aggregate_def normalizeGenericChartData_def categoriesSeries_def
          normalizeProventos_def)
  show ?thesis
    using classification_absorbed [where sd = "JArr []" and x = "JObj [(''name'', JStr ''x'')]"
        and u = None and xs = "[]" and s = "''/etfs/bova11''" and c = "''acoes''"
        and net = ?quiet and t = "''PETR4''" and E = plainEngine and raw = "''PETR4''"
        and e = FetchFailed and rnd = "\<lambda>n. 0"]
      classification_absorbed [where sd = "JArr []"
        and x = "JObj [(''url'', JStr ''/etfs/bova11'')]"
        and u = None and xs = "[]" and s = "''/etfs/bova11''" and c = "''acoes''"
        and net = searchDown and t = "''PETR4''" and E = plainEngine and raw = "''PETR4''"
        and e = FetchFailed and rnd = "\<lambda>n. 0"]
      up down no found each real
    by simp
qed

text \<open>
  The claim as written has the pipeline go on with \<^verbatim>\<open>acoes\<close> after a failed search. On
  \<open>searchDown\<close> the search fails and every endpoint of \<^verbatim>\<open>acoes\<close> would answer with data,
  yet the view holds the simulated data and the error of the search.
\<close>

theorem search_error_counterexample:
  "fetchFinancialData plainEngine searchDown (\<lambda>n. 0) ''petr4 '' =
     Some \<lparr>data = generateMockData (\<lambda>n. 0) ''PETR4'', error = Some FetchFailed,
           currentTicker = ''PETR4''\<rparr>
   \<and> isMock (generateMockData (\<lambda>n. 0) ''PETR4'')
   \<and> safeFetch plainEngine searchDown (chartPath ''acoes'' ''getreceitas'' ''PETR4'') =
       JArr [JObj [(''date'', JStr ''2023''), (''value'', JNum (Num 1))]]"
proof -
  have up: "toUpperCase plainEngine (trim ''petr4 '') = ''PETR4''"
    by code_simp
  have "proxyFetch plainEngine searchDown ''/home/mainsearchquery?q=PETR4'' = Inl FetchFailed"
    using search_path by (simp add: proxyFetch_def searchDown_def Let_def)
  then have "realData plainEngine searchDown ''PETR4'' = Inl FetchFailed"
    by (simp add: realData_def)
  then have view: "fetchFinancialData plainEngine searchDown (\<lambda>n. 0) ''petr4 '' =
     Some \<lparr>data = generateMockData (\<lambda>n. 0) ''PETR4'', error = Some FetchFailed,
           currentTicker = ''PETR4''\<rparr>"
    using up by (simp add: fetchFinancialData_def Let_def)
  have mock: "isMock (generateMockData (\<lambda>n. 0) ''PETR4'')"
    by (simp add: generateMockData_def Let_def case_prod_unfold)
  have real: "safeFetch plainEngine searchDown (chartPath ''acoes'' ''getreceitas'' ''PETR4'') =
       JArr [JObj [(''date'', JStr ''2023''), (''value'', JNum (Num 1))]]"
    by code_simp
  from view mock real show ?thesis by simp
qed

subsection \<open>C3: the order of the earnings\<close>




subsection \<open>C4: the zip of categories and series\<close>

text \<open>
  Claim C4, as the code has it. Take a payload that is an object with an array
  \<^verbatim>\<open>categories\<close> and an array \<^verbatim>\<open>series\<close> whose first element is an object with an array
  \<^verbatim>\<open>data\<close>, and on which the conversions of the callback do not throw:
  \<^verbatim>\<open>String(categories[i])\<close> is a string \<open>label i\<close> for every index of \<^verbatim>\<open>categories\<close>, and
  \<^verbatim>\<open>Number(data[i])\<close> is a number \<open>number i\<close> for every such index that \<^verbatim>\<open>data\<close> has too
  (by \<open>conversion_of_primitive\<close> both hold whenever the elements are \<^verbatim>\<open>null\<close>, booleans,
  numbers or strings). Then \<^verbatim>\<open>normalizeGenericChartData\<close> returns as many points as
  there are categories; point \<open>i\<close> has the name \<open>label i\<close> and the value \<open>number i\<close>, or 0
  where \<^verbatim>\<open>data\<close> has no index \<open>i\<close>.
\<close>

theorem categories_series_zip:
  assumes "map_of kvs ''categories'' = Some (JArr cs)"
    and "map_of kvs ''series'' = Some (JArr (JObj s0 # ss))"
    and "map_of s0 ''data'' = Some (JArr ds)"
    and "\<forall>i < length cs. to_string E (cs ! i) = Inr (label i)"
    and "\<forall>i < length cs. i < length ds \<longrightarrow> to_number E (Some (ds ! i)) = Inr (number i)"
  shows "\<exists>ps. normalizeGenericChartData E (JObj kvs) = Inr ps
            \<and> length ps = length cs
            \<and> (\<forall>i < length cs.
                  name (ps ! i) = Some (JStr (label i))
                \<and> value (ps ! i) = (if i < length ds then number i else Num 0))"
proof -
  let ?point = "\<lambda>ci. \<lparr>name = Some (JStr (label (snd ci))),
                      value = (if snd ci < length ds then number (snd ci) else Num 0)\<rparr>"
  have item: "seriesItem E (Some (JArr ds)) ci = Inr (?point ci)"
    if "ci \<in> set (zip cs [0..<length cs])" for ci
  proof -
    from that obtain i where i: "i < length cs" and ci: "ci = (cs ! i, i)"
      by (auto simp: zip_upt_nth)
    show ?thesis
    proof (cases "i < length ds")
      case True
      with i assms(5) have n: "to_number E (Some (ds ! i)) = Inr (number i)"
        by simp
      then have "ds ! i = JNull \<Longrightarrow> number i = Num 0"
        by simp
      with True i n assms(4) show ?thesis
        by (auto simp: seriesItem_def ci nullish_def)
    next
      case False
      with i assms(4) show ?thesis
        by (simp add: seriesItem_def ci nullish_def)
    qed
  qed
  have "normalizeGenericChartData E (JObj kvs) = categoriesSeries E (JObj kvs)"
    by (simp add: normalizeGenericChartData_def)
  also have "\<dots> = traverse (seriesItem E (Some (JArr ds))) (zip cs [0..<length cs])"
    using assms(1-3) positive_Suc [of "length ss"]
    by (simp add: categoriesSeries_def gt_zero_def del: of_nat_Suc)
  also have "\<dots> = Inr (map ?point (zip cs [0..<length cs]))"
    by (rule traverse_total) (rule item)
  finally have "normalizeGenericChartData E (JObj kvs)
      = Inr (map (\<lambda>i. ?point (cs ! i, i)) [0..<length cs])"
    by (simp add: zip_upt_nth comp_def)
  then show ?thesis by simp
qed

text \<open>
  An instance: three categories over two data, the second of them \<^verbatim>\<open>null\<close>, give three
  points with the values 7, 0 and 0.
\<close>

theorem categories_series_zip_witness:
  "\<exists>ps. normalizeGenericChartData plainEngine
          (JObj [(''categories'', JArr [JStr ''2021'', JStr ''2022'', JStr ''2023'']),
                 (''series'', JArr [JObj [(''name'', JStr ''Receita''),
                                          (''data'', JArr [JNum (Num 7), JNull])]])]) = Inr ps
        \<and> length ps = 3
        \<and> map name ps = [Some (JStr ''2021''), Some (JStr ''2022''), Some (JStr ''2023'')]
        \<and> map value ps = [Num 7, Num 0, Num 0]"
proof -
  let ?label = "\<lambda>i. [''2021'', ''2022'', ''2023''] ! i"
  let ?number = "\<lambda>i. [Num 7, Num 0] ! i"
  have labels: "\<forall>i < length [JStr ''2021'', JStr ''2022'', JStr ''2023''].
      to_string plainEngine ([JStr ''2021'', JStr ''2022'', JStr ''2023''] ! i) = Inr (?label i)"
    by (simp add: less_Suc_eq numeral_3_eq_3)
  have numbers: "\<forall>i < length [JStr ''2021'', JStr ''2022'', JStr ''2023''].
      i < length [JNum (Num 7), JNull] \<longrightarrow>
      to_number plainEngine (Some ([JNum (Num 7), JNull] ! i)) = Inr (?number i)"
    by (simp add: less_Suc_eq numeral_2_eq_2)
  obtain ps where run: "normalizeGenericChartData plainEngine
          (JObj [(''categories'', JArr [JStr ''2021'', JStr ''2022'', JStr ''2023'']),
                 (''series'', JArr [JObj [(''name'', JStr ''Receita''),
                                          (''data'', JArr [JNum (Num 7), JNull])]])]) = Inr ps"
    and len: "length ps = 3"
    and pts: "\<forall>i < 3. name (ps ! i) = Some (JStr (?label i))
                    \<and> value (ps ! i) = (if i < 2 then ?number i else Num 0)"
    using categories_series_zip [of
        "[(''categories'', JArr [JStr ''2021'', JStr ''2022'', JStr ''2023'']),
          (''series'', JArr [JObj [(''name'', JStr ''Receita''),
                                   (''data'', JArr [JNum (Num 7), JNull])]])]"
        "[JStr ''2021'', JStr ''2022'', JStr ''2023'']"
        "[(''name'', JStr ''Receita''), (''data'', JArr [JNum (Num 7), JNull])]" "[]"
        "[JNum (Num 7), JNull]" plainEngine ?label ?number]
      labels numbers
    by auto
  from len obtain p q r where ps: "ps = [p, q, r]"
    by (auto simp: length_Suc_conv numeral_3_eq_3)
  from pts have "name p = Some (JStr ''2021'') \<and> value p = Num 7"
      and "name q = Some (JStr ''2022'') \<and> value q = Num 0"
      and "name r = Some (JStr ''2023'') \<and> value r = Num 0"
    unfolding ps
    by (auto simp: numeral_3_eq_3 less_Suc_eq)
  with run ps show ?thesis by auto
qed

text \<open>
  The claim as written makes the length the shorter of the two arrays. With two
  categories over one datum the result has two points, not one.
\<close>

theorem shorter_length_counterexample:
  "normalizeGenericChartData plainEngine
     (JObj [(''categories'', JArr [JStr ''2022'', JStr ''2023'']),
            (''series'', JArr [JObj [(''data'', JArr [JNum (Num 7)])]])])
   = Inr [\<lparr>name = Some (JStr ''2022''), value = Num 7\<rparr>,
          \<lparr>name = Some (JStr ''2023''), value = Num 0\<rparr>]
   \<and> length [\<lparr>name = Some (JStr ''2022''), value = Num 7\<rparr>,
             \<lparr>name = Some (JStr ''2023''), value = Num 0\<rparr>]
       \<noteq> min (length [JStr ''2022'', JStr ''2023'']) (length [JNum (Num 7)])"
  by (simp add: normalizeGenericChartData_def categoriesSeries_def gt_zero_def positive_def
        seriesItem_def nullish_def)

subsection \<open>C5: inputs of no recognized shape\<close>

text \<open>
  Claim C5 holds that \<^verbatim>\<open>normalizeGenericChartData\<close> returns the empty sequence, and never
  throws, on every input that is of neither recognized shape, and names the object with
  \<^verbatim>\<open>categories\<close> and a non-empty \<^verbatim>\<open>series\<close> whose first element has no \<^verbatim>\<open>data\<close>. On that
  input the code throws, whatever the engine: \<^verbatim>\<open>seriesData\<close> is \<^verbatim>\<open>undefined\<close> and the
  callback reads \<^verbatim>\<open>seriesData[0]\<close>.
\<close>

theorem missing_data_throws:
  "normalizeGenericChartData E
     (JObj [(''categories'', JArr [JStr ''2023'']), (''series'', JArr [JObj []])])
   = Inl TypeError"
  by (simp add: normalizeGenericChartData_def categoriesSeries_def gt_zero_def positive_def
        seriesItem_def)

subsection \<open>C6: a host outside the allowed domain\<close>

text \<open>
  Claim C6. For every request that is not the \<^verbatim>\<open>OPTIONS\<close> preflight, whose \<^verbatim>\<open>url\<close>
  parameter parses as a URL and whose hostname does not end with
  \<^verbatim>\<open>statusinvest.com.br\<close>, the relay answers 403 with the error body and has fetched
  nothing. The answer is the same whatever the upstream would have sent: the upstream is
  not asked.
\<close>

theorem foreign_host_rejected:
  assumes "method req \<noteq> ''OPTIONS''"
    and "url req = Some q"
    and "hostname host (param_text q) = Some h"
    and "\<not> endsWith h ''statusinvest.com.br''"
  shows "handler host web jsonParse req =
           \<lparr>code = 403, content = ForbiddenDomain, headers = cors, fetched = []\<rparr>"
  using assms given_param [OF assms(3)] by (simp add: handler_def)

text \<open>
  An instance: the target \<^verbatim>\<open>https://evil.example.com/data\<close>, with an upstream that would
  answer with JSON.
\<close>

theorem foreign_host_rejected_witness:
  "\<not> endsWith ''evil.example.com'' ''statusinvest.com.br''
   \<and> handler (\<lambda>s. Some ''evil.example.com'')
        (\<lambda>s. Inr \<lparr>status = 200, contentType = Some ''application/json'', rawText = ''[]''\<rparr>)
        (\<lambda>s. Some (JArr []))
        \<lparr>method = ''GET'', url = Some (Single ''https://evil.example.com/data'')\<rparr>
      = \<lparr>code = 403, content = ForbiddenDomain, headers = cors, fetched = []\<rparr>"
proof -
  have far: "\<not> endsWith ''evil.example.com'' ''statusinvest.com.br''"
    by (simp add: endsWith_def)
  have parsed: "hostname (\<lambda>s. Some ''evil.example.com'') ''https://evil.example.com/data''
      = Some ''evil.example.com''"
    by (simp add: hostname_def urlInput_def hasScheme_def is_alpha_def is_alnum_def
          c0_or_space_def)
  show ?thesis
    using foreign_host_rejected [of
        "\<lparr>method = ''GET'', url = Some (Single ''https://evil.example.com/data'')\<rparr>"
        "Single ''https://evil.example.com/data''" "\<lambda>s. Some ''evil.example.com''"
        "''evil.example.com''"
        "\<lambda>s. Inr \<lparr>status = 200, contentType = Some ''application/json'', rawText = ''[]''\<rparr>"
        "\<lambda>s. Some (JArr [])"]
      far parsed
    by simp
qed

subsection \<open>C7: the challenge page\<close>

text \<open>
  Claim C7. For every request that reaches the upstream and every response of the upstream,
  the relay answers 503 exactly when the status is outside 200 to 299, or the content type
  contains \<^verbatim>\<open>text/html\<close>, or the body, after its leading white space, starts with
  \<^verbatim>\<open><!\<close> or with \<^verbatim>\<open><html\<close>; the body of the 503 holds the upstream status and the first
  200 code units of the upstream body. In particular a response with status 200 and
  content type \<^verbatim>\<open>text/html\<close> is answered with 503 and never with the parsed payload.
\<close>

theorem challenge_detection:
  assumes "method req \<noteq> ''OPTIONS''"
    and "url req = Some q"
    and "hostname host (param_text q) = Some h"
    and "endsWith h ''statusinvest.com.br''"
    and "web (param_text q) = Inr r"
  shows "(code (handler host web jsonParse req) = 503)
           = (\<not> (200 \<le> status r \<and> status r \<le> 299)
              \<or> includesStr (case contentType r of None \<Rightarrow> [] | Some t \<Rightarrow> t) ''text/html''
              \<or> startsWith (trimStart (rawText r)) ''<!''
              \<or> startsWith (trimStart (rawText r)) ''<html'')
       \<and> (code (handler host web jsonParse req) = 503 \<longrightarrow>
            content (handler host web jsonParse req) = Blocked (status r) (take 200 (rawText r)))
       \<and> (status r = 200 \<and> contentType r = Some ''text/html'' \<longrightarrow>
            code (handler host web jsonParse req) = 503
            \<and> (\<forall>j. content (handler host web jsonParse req) \<noteq> Payload j))"
proof -
  let ?t = "param_text q"
  have html: "includesStr ''text/html'' ''text/html''"
    by (simp add: startsWith_def)
  have sig: "challenge r = (\<not> (200 \<le> status r \<and> status r \<le> 299)
              \<or> includesStr (case contentType r of None \<Rightarrow> [] | Some t \<Rightarrow> t) ''text/html''
              \<or> startsWith (trimStart (rawText r)) ''<!''
              \<or> startsWith (trimStart (rawText r)) ''<html'')"
    by (simp add: challenge_def)
  have run: "handler host web jsonParse req =
      (if challenge r
       then \<lparr>code = 503, content = Blocked (status r) (take 200 (rawText r)),
             headers = cors, fetched = [?t]\<rparr>
       else (case jsonParse (rawText r) of
               None \<Rightarrow> \<lparr>code = 502, content = InvalidJson (take 200 (rawText r)),
                        headers = cors, fetched = [?t]\<rparr>
             | Some j \<Rightarrow> \<lparr>code = 200, content = Payload j,
                          headers = cors @
                            [(''Cache-Control'', ''s-maxage=300, stale-while-revalidate=60''),
                             (''Content-Type'', ''application/json'')],
                          fetched = [?t]\<rparr>))"
    using assms given_param [OF assms(3)] by (simp add: handler_def Let_def)
  have code: "(code (handler host web jsonParse req) = 503) = challenge r"
    unfolding run by (simp split: option.split)
  have blocked: "challenge r \<Longrightarrow>
      content (handler host web jsonParse req) = Blocked (status r) (take 200 (rawText r))"
    unfolding run by simp
  have markup: "status r = 200 \<and> contentType r = Some ''text/html'' \<Longrightarrow> challenge r"
    using html by (simp add: challenge_def)
  show ?thesis
    using code blocked markup sig by auto
qed

text \<open>
  An instance: the upstream answers 200 with content type \<^verbatim>\<open>text/html\<close> and a body that a
  JSON parser would accept; the relay answers 503 with the status and the body.
\<close>

theorem challenge_detection_witness:
  "code (handler (\<lambda>s. Some ''statusinvest.com.br'')
           (\<lambda>s. Inr \<lparr>status = 200, contentType = Some ''text/html'', rawText = ''{}''\<rparr>)
           (\<lambda>s. Some (JObj []))
           \<lparr>method = ''GET'', url = Some (Single ''https://statusinvest.com.br/acoes/x'')\<rparr>)
     = 503
   \<and> content (handler (\<lambda>s. Some ''statusinvest.com.br'')
           (\<lambda>s. Inr \<lparr>status = 200, contentType = Some ''text/html'', rawText = ''{}''\<rparr>)
           (\<lambda>s. Some (JObj []))
           \<lparr>method = ''GET'', url = Some (Single ''https://statusinvest.com.br/acoes/x'')\<rparr>)
     = Blocked 200 ''{}''"
proof -
  have near: "endsWith ''statusinvest.com.br'' ''statusinvest.com.br''"
    by (simp add: endsWith_def)
  have parsed: "hostname (\<lambda>s. Some ''statusinvest.com.br'') ''https://statusinvest.com.br/acoes/x''
      = Some ''statusinvest.com.br''"
    by (simp add: hostname_def urlInput_def hasScheme_def is_alpha_def is_alnum_def
          c0_or_space_def)
  show ?thesis
    using challenge_detection [of
        "\<lparr>method = ''GET'', url = Some (Single ''https://statusinvest.com.br/acoes/x'')\<rparr>"
        "Single ''https://statusinvest.com.br/acoes/x''" "\<lambda>s. Some ''statusinvest.com.br''"
        "''statusinvest.com.br''"
        "\<lambda>s. Inr \<lparr>status = 200, contentType = Some ''text/html'', rawText = ''{}''\<rparr>"
        "\<lparr>status = 200, contentType = Some ''text/html'', rawText = ''{}''\<rparr>"
        "\<lambda>s. Some (JObj [])"]
      near parsed
    by simp
qed

subsection \<open>C8: the target is not decoded again\<close>

text \<open>
  Claim C8, as the code has it. The relay takes the \<^verbatim>\<open>url\<close> parameter as the environment
  hands it over, already decoded, and never decodes it: whatever it fetches is that very
  string, and it fetches exactly that string when the string parses as a URL of the
  allowed domain. (A target that is still percent-encoded is not decoded either; see the
  counterexample.)
\<close>

theorem target_fetched_verbatim:
  assumes "method req \<noteq> ''OPTIONS''"
    and "url req = Some q"
  shows "set (fetched (handler host web jsonParse req)) \<subseteq> {param_text q}
       \<and> (\<forall>h. hostname host (param_text q) = Some h \<and> endsWith h ''statusinvest.com.br'' \<longrightarrow>
            fetched (handler host web jsonParse req) = [param_text q])"
  using assms
  by (auto simp: handler_def Let_def dest: given_param
           split: option.splits sum.splits if_splits)

text \<open>
  An instance: a target with an escaped percent sign in its query, which a second decoding
  would turn into another URL, is fetched as it is.
\<close>

theorem target_fetched_verbatim_witness:
  "fetched (handler (\<lambda>s. Some ''statusinvest.com.br'')
             (\<lambda>s. Inl ''connection reset'') (\<lambda>s. None)
             \<lparr>method = ''GET'',
              url = Some (Single ''https://statusinvest.com.br/home/mainsearchquery?q=A%2520B'')\<rparr>)
     = [''https://statusinvest.com.br/home/mainsearchquery?q=A%2520B'']"
proof -
  have near: "endsWith ''statusinvest.com.br'' ''statusinvest.com.br''"
    by (simp add: endsWith_def)
  have parsed: "hostname (\<lambda>s. Some ''statusinvest.com.br'')
        ''https://statusinvest.com.br/home/mainsearchquery?q=A%2520B''
      = Some ''statusinvest.com.br''"
    by (simp add: hostname_def urlInput_def hasScheme_def is_alpha_def is_alnum_def
          c0_or_space_def)
  show ?thesis
    using target_fetched_verbatim [of
        "\<lparr>method = ''GET'',
          url = Some (Single ''https://statusinvest.com.br/home/mainsearchquery?q=A%2520B'')\<rparr>"
        "Single ''https://statusinvest.com.br/home/mainsearchquery?q=A%2520B''"
        "\<lambda>s. Some ''statusinvest.com.br''" "\<lambda>s. Inl ''connection reset''" "\<lambda>s. None"]
      near parsed
    by simp
qed

text \<open>
  The claim as written has the relay accept the target in raw form as well. The raw form
  of a target is what \<^verbatim>\<open>proxyFetch\<close> puts behind \<^verbatim>\<open>url=\<close>, the target under
  \<^verbatim>\<open>encodeURIComponent\<close>. Handed over undecoded it has no scheme, so it is no URL: the
  relay answers 400 and fetches nothing, even with a parser that would find the allowed
  host in it.
\<close>

theorem raw_target_counterexample:
  "handler (\<lambda>s. Some ''statusinvest.com.br'') (\<lambda>s. Inl ''connection reset'') (\<lambda>s. None)
     \<lparr>method = ''GET'',
      url = Some (Single (encodeURIComponent
                            (SI_BASE @ ''/acoes/getreceitas?code=PETR4&type=0'')))\<rparr>
   = \<lparr>code = 400,
      content = InvalidUrl
        ''https%3A%2F%2Fstatusinvest.com.br%2Facoes%2Fgetreceitas%3Fcode%3DPETR4%26type%3D0'',
      headers = cors, fetched = []\<rparr>"
  by (simp add: handler_def hostname_def urlInput_def hasScheme_def encodeURIComponent_def
        SI_BASE_def encodeUnit_def is_alnum_def is_alpha_def c0_or_space_def percent_def
        hex_digit_def)

text \<open>
  So it is for every path: under \<^verbatim>\<open>encodeURIComponent\<close> the target starts with
  \<^verbatim>\<open>https%3A\<close>, and no code unit of it is white space or a control.
\<close>

lemma hex_digit_printable: "32 < (of_char (hex_digit n) :: nat)"
proof -
  have "hex_digit n \<in> set ''0123456789ABCDEF''"
    unfolding hex_digit_def by (rule nth_mem) simp
  then show ?thesis by auto
qed

lemma encodeUnit_printable: "c \<in> set (encodeUnit x) \<Longrightarrow> 32 < (of_char c :: nat)"
  by (auto simp: encodeUnit_def Let_def percent_def is_alnum_def hex_digit_printable
           split: if_splits)

lemma encoded_printable: "c \<in> set (encodeURIComponent s) \<Longrightarrow> 32 < (of_char c :: nat)"
  by (auto simp: encodeURIComponent_def dest: encodeUnit_printable)

lemma dropWhile_none: "\<forall>c \<in> set xs. \<not> P c \<Longrightarrow> dropWhile P xs = xs"
  by (cases xs) simp_all

lemma urlInput_encoded: "urlInput (encodeURIComponent s) = encodeURIComponent s"
proof -
  let ?e = "encodeURIComponent s"
  have keep: "\<forall>c \<in> set ?e. \<not> c0_or_space c"
    by (auto simp: c0_or_space_def dest: encoded_printable)
  have front: "dropWhile c0_or_space ?e = ?e"
    by (rule dropWhile_none) (use keep in simp)
  have rear: "dropWhile c0_or_space (rev ?e) = rev ?e"
    by (rule dropWhile_none) (use keep in simp)
  have whole: "filter (\<lambda>c. (of_char c :: nat) \<notin> {9, 10, 13}) ?e = ?e"
    by (rule filter_True) (auto dest: encoded_printable)
  show ?thesis
    unfolding urlInput_def front rear rev_rev_ident by (rule whole)
qed

lemma encoded_base:
  "encodeURIComponent (SI_BASE @ path) = ''https%3A%2F%2Fstatusinvest.com.br'' @ encodeURIComponent path"
  by (simp add: encodeURIComponent_def SI_BASE_def encodeUnit_def is_alnum_def percent_def hex_digit_def)

lemma raw_target_no_url: "hostname host (encodeURIComponent (SI_BASE @ path)) = None"
  by (simp add: hostname_def urlInput_encoded)
     (simp add: encoded_base hasScheme_def is_alpha_def is_alnum_def)

text \<open>
  The raw form of every target of \<^verbatim>\<open>proxyFetch\<close> is no URL: the relay answers 400 and
  fetches nothing.
\<close>

lemma raw_target_rejected:
  assumes "method req \<noteq> ''OPTIONS''"
    and "url req = Some (Single (encodeURIComponent (SI_BASE @ path)))"
  shows "code (handler host web jsonParse req) = 400 \<and> fetched (handler host web jsonParse req) = []"
  using assms by (simp add: handler_def raw_target_no_url Let_def)

subsection \<open>C9: the simulated snapshot\<close>

text \<open>
  Claim C9. For every ticker and every run of the random draws, the simulated snapshot has
  \<^verbatim>\<open>isMock = true\<close>, six points in each of the five yearly series and twelve points of
  earnings; its category is \<^verbatim>\<open>FII\<close> when the ticker has length 6 and ends in \<^verbatim>\<open>11\<close>, and
  the label of equities otherwise.
\<close>

theorem mock_shape:
  "isMock (generateMockData rnd ticker)
   \<and> categoria (generateMockData rnd ticker) =
       (if length ticker = 6 \<and> endsWith ticker ''11'' then ''FII'' else ACAO)
   \<and> length (patrimonio (generateMockData rnd ticker)) = 6
   \<and> length (receitas (generateMockData rnd ticker)) = 6
   \<and> length (despesas (generateMockData rnd ticker)) = 6
   \<and> length (caixa (generateMockData rnd ticker)) = 6
   \<and> length (resultado (generateMockData rnd ticker)) = 6
   \<and> length (proventos (generateMockData rnd ticker)) = 12"
proof -
  have y: "length years = 6" and m: "length months = 12"
    by (simp_all add: years_def months_def)
  have len: "\<And>base step spread i k. length (fst (yearly rnd base step spread i k years)) = 6"
    by (simp add: yearly_length y)
  show ?thesis
    by (simp add: generateMockData_def Let_def case_prod_unfold len monthly_length m)
qed

text \<open>
  The example of the specification: \<^verbatim>\<open>MXRF11\<close> is a real-estate fund, \<^verbatim>\<open>PETR4\<close> is not.
\<close>

theorem mock_shape_witness:
  "isMock (generateMockData (\<lambda>n. 1 / 2) ''MXRF11'')
   \<and> categoria (generateMockData (\<lambda>n. 1 / 2) ''MXRF11'') = ''FII''
   \<and> length (patrimonio (generateMockData (\<lambda>n. 1 / 2) ''MXRF11'')) = 6
   \<and> length (proventos (generateMockData (\<lambda>n. 1 / 2) ''MXRF11'')) = 12
   \<and> categoria (generateMockData (\<lambda>n. 1 / 2) ''PETR4'') = ACAO"
proof -
  have fund: "length ''MXRF11'' = 6 \<and> endsWith ''MXRF11'' ''11''"
    by (simp add: endsWith_def)
  have share: "length ''PETR4'' \<noteq> 6"
    by simp
  show ?thesis
    using mock_shape [of "\<lambda>n. 1 / 2" "''MXRF11''"] mock_shape [of "\<lambda>n. 1 / 2" "''PETR4''"]
      fund share
    by simp
qed

subsection \<open>C10: only the first element decides the shape of an array\<close>

text \<open>
  What holds of the code: when the reads of \<^verbatim>\<open>date\<close> and of \<^verbatim>\<open>d\<close> from element 0 both
  give \<^verbatim>\<open>undefined\<close>, \<^verbatim>\<open>normalizeGenericChartData\<close> returns the empty sequence, whatever
  the later elements hold; and so it does for the empty array.
\<close>

lemma first_element_decides:
  assumes "field (Some x) ''date'' = Inr None" and "field (Some x) ''d'' = Inr None"
  shows "normalizeGenericChartData E (JArr (x # xs)) = Inr []
       \<and> normalizeGenericChartData E (JArr []) = Inr []"
proof
  from assms have "dateKeyed (JArr (x # xs)) = Inr False"
    by simp
  then show "normalizeGenericChartData E (JArr (x # xs)) = Inr []"
    by (simp add: normalizeGenericChartData_def categoriesSeries_def)
next
  show "normalizeGenericChartData E (JArr []) = Inr []"
    by (simp add: normalizeGenericChartData_def categoriesSeries_def)
qed

lemma first_element_decides_example:
  "normalizeGenericChartData plainEngine
     (JArr [JObj [(''year'', JStr ''2022''), (''value'', JNum (Num 1))],
            JObj [(''date'', JStr ''2023''), (''value'', JNum (Num 2))]]) = Inr []"
  using first_element_decides [of "JObj [(''year'', JStr ''2022''), (''value'', JNum (Num 1))]"
      plainEngine "[JObj [(''date'', JStr ''2023''), (''value'', JNum (Num 2))]]"]
  by simp

lemma null_first_element_throws:
  "normalizeGenericChartData E (JArr (JNull # xs)) = Inl TypeError"
  by (simp add: normalizeGenericChartData_def)

text \<open>
  Claim C10 holds that \<^verbatim>\<open>normalizeGenericChartData\<close> returns the empty sequence on every
  non-empty array whose element 0 has neither a \<^verbatim>\<open>date\<close> nor a \<^verbatim>\<open>d\<close> field, even if later
  elements carry a date and a value. \<^verbatim>\<open>null\<close> has neither field, and on an array that
  starts with \<^verbatim>\<open>null\<close> the code throws, whatever the engine: the guard of line 29 reads
  \<^verbatim>\<open>data[0].date\<close> before anything has looked at \<^verbatim>\<open>data[0]\<close>.
\<close>

theorem null_element_throws:
  "normalizeGenericChartData E
     (JArr [JNull, JObj [(''date'', JStr ''2023''), (''value'', JNum (Num 2))]])
   = Inl TypeError"
  by (simp add: normalizeGenericChartData_def)

end
